theory Spec2Isabelle
  imports Main "HOL-Library.Word"
begin

section \<open>babyfs, super.c: mount, unmount, the inode pool and module load/unload\<close>

text \<open>
  A shallow embedding of \<^verbatim>\<open>super.c\<close>.  The file is kernel glue: each of its functions is a
  short sequence of calls into the host kernel (kzalloc, sb_bread, brelse, the slab
  allocator, RCU, the filesystem registry) with the error handling between them.  The
  functions of \<^verbatim>\<open>super.c\<close> are translated statement by statement.  The host primitives are
  not part of the sources; each is a small state transformer that records what the
  primitive is documented to do, and the answer of a primitive that can fail is an
  argument of the model (the record \<open>host\<close> for a mount, separate arguments elsewhere).
  Pointers that may be NULL are options, \<open>None\<close> being NULL.
\<close>

subsection \<open>Data\<close>

type_synonym addr = "64 word"
type_synonym u32 = "32 word"

text \<open>
  Error numbers are the host's (\<^verbatim>\<open>errno-base.h\<close>).  \<^verbatim>\<open>super.c\<close> names only \<^verbatim>\<open>ENOMEM\<close>; the
  other two are what an I/O error and a missing inode are reported as.
\<close>

definition ENOMEM :: int where
  "ENOMEM = 12"

definition EIO :: int where
  "EIO = 5"

definition ENOENT :: int where
  "ENOENT = 2"

text \<open>
  Modelled from the spec: \<^verbatim>\<open>struct baby_super_block\<close> is declared in \<^verbatim>\<open>babyfs.h\<close>, which is
  not among the sources.  The two fields \<^verbatim>\<open>super.c\<close> reads are kept, each an unsigned
  4-byte integer as the on-disk layout of the spec says.
\<close>

record baby_super_block =
  magic :: u32
  nr_dstore_blocks :: u32

text \<open>
  A buffer head as \<^verbatim>\<open>sb_bread\<close> hands it out: \<open>b_id\<close> names the buffer (its reference
  count lives in the kernel state), \<open>b_data\<close> is the block it holds.
\<close>

record buffer_head =
  b_id :: nat
  b_data :: baby_super_block

text \<open>
  Modelled from the spec: \<^verbatim>\<open>struct baby_sb_info\<close> is declared in \<^verbatim>\<open>babyfs.h\<close>.  The two
  members \<^verbatim>\<open>super.c\<close> writes are kept; both are pointers.
\<close>

record baby_sb_info =
  s_babysb :: "baby_super_block option"
  s_sbh :: "buffer_head option"

text \<open>Function pointers are tags; \<^verbatim>\<open>babyfs_super_opts\<close> is the table of lines 148-154.\<close>

datatype fn_ptr =
  Simple_statfs | Baby_alloc_inode | Baby_destroy_inode | Baby_write_inode | Baby_put_super

record super_operations =
  statfs :: fn_ptr
  alloc_inode :: fn_ptr
  destroy_inode :: fn_ptr
  write_inode :: fn_ptr
  put_super :: fn_ptr

definition babyfs_super_opts :: super_operations where
  "babyfs_super_opts =
     \<lparr>statfs = Simple_statfs, alloc_inode = Baby_alloc_inode,
      destroy_inode = Baby_destroy_inode, write_inode = Baby_write_inode,
      put_super = Baby_put_super\<rparr>"

text \<open>
  The members of the host's \<^verbatim>\<open>struct super_block\<close> that \<^verbatim>\<open>super.c\<close> touches.
  \<open>s_fs_info\<close> points into the kmalloc heap of the kernel state; \<open>s_magic\<close> is an
  unsigned long.
\<close>

record super_block =
  s_blocksize :: nat
  s_magic :: "64 word"
  s_op :: "super_operations option"
  s_fs_info :: "nat option"
  s_root :: "addr option"

text \<open>
  Error pointers, as the host's \<^verbatim>\<open>linux/err.h\<close> has them: a pointer is an error when it
  lies in the last 4095 addresses, and its error number is the pointer read as a signed
  integer.
\<close>

definition ERR_PTR :: "int \<Rightarrow> addr" where
  "ERR_PTR error = word_of_int error"

definition IS_ERR :: "addr \<Rightarrow> bool" where
  "IS_ERR ptr = (- 4095 \<le> ptr)"

definition PTR_ERR :: "addr \<Rightarrow> int" where
  "PTR_ERR ptr = sint ptr"

text \<open>
  The host's answers to the five requests of one \<^verbatim>\<open>babyfs_fill_super\<close>:
  whether kzalloc finds memory; what \<^verbatim>\<open>sb_set_blocksize(sb, BABYFS_BLOCK_SIZE)\<close> returns
  (0 when the device cannot use that size, the size otherwise); the buffer
  \<^verbatim>\<open>sb_bread(sb, BABYFS_SUPER_BLOCK)\<close> returns (NULL on a read error); what
  \<^verbatim>\<open>baby_iget(sb, BABYFS_ROOT_INODE_NO)\<close> returns (\<^verbatim>\<open>baby_iget\<close> is the inode provider of the
  spec, defined outside \<^verbatim>\<open>super.c\<close>); and the dentry \<^verbatim>\<open>d_make_root\<close> returns.
\<close>

record host =
  kzalloc_ok :: bool
  set_blocksize_ret :: nat
  bread_ret :: "buffer_head option"
  iget_ret :: addr
  make_root_ret :: "addr option"

text \<open>The slab constructor and the RCU callback are function pointers, hence tags.\<close>

datatype ctor_fn = Init_once

datatype rcu_fn = Baby_i_callback

text \<open>The calls into the host whose order matters, logged as they happen.\<close>

datatype event =
  Ev_kmem_cache_create
| Ev_kmem_cache_destroy
| Ev_kmem_cache_free addr
| Ev_inode_init_once addr
| Ev_rcu_barrier
| Ev_register_filesystem
| Ev_unregister_filesystem
| Ev_oops

text \<open>
  A slab cache: its constructor, the objects carved from bulk storage so far (in the
  order they were carved), the carved objects that are free, and whether the cache
  still exists (\<^verbatim>\<open>kmem_cache_destroy\<close> leaves \<^verbatim>\<open>baby_inode_cachep\<close> dangling).
\<close>

record kmem_cache =
  c_ctor :: "ctor_fn option"
  c_slots :: "addr list"
  c_free :: "addr list"
  c_alive :: bool

text \<open>
  Where \<^verbatim>\<open>struct baby_inode_info\<close> keeps its \<^verbatim>\<open>vfs_inode\<close> and \<^verbatim>\<open>struct inode\<close> its
  \<^verbatim>\<open>i_rcu\<close>: the two \<^verbatim>\<open>offsetof\<close> values, which the headers fix and the model takes as
  given.
\<close>

record layout =
  off_vfs_inode :: addr
  off_i_rcu :: addr

text \<open>
  The state: the two globals of \<^verbatim>\<open>super.c\<close> (\<open>NR_DSTORE_BLOCKS\<close>, an int, kept as its 32
  bits; \<open>baby_inode_cachep\<close>), and the host state the file acts on: the kmalloc heap
  (a freed object is \<open>None\<close>), the reference count of every buffer, the RCU callbacks
  queued and not yet run, the registered filesystem types, and the log of events.
\<close>

record kstate =
  NR_DSTORE_BLOCKS :: u32
  baby_inode_cachep :: "kmem_cache option"
  kmalloc_heap :: "baby_sb_info option list"
  b_count :: "nat \<Rightarrow> nat"
  rcu_pending :: "(addr \<times> rcu_fn) list"
  filesystems :: "string list"
  trace :: "event list"

subsection \<open>Host primitives of the mount path\<close>

definition log_event :: "event \<Rightarrow> kstate \<Rightarrow> kstate" where
  "log_event e s = s\<lparr>trace := trace s @ [e]\<rparr>"

text \<open>kzalloc: NULL, or a fresh zeroed object at the end of the heap.\<close>

definition kzalloc :: "bool \<Rightarrow> kstate \<Rightarrow> nat option \<times> kstate" where
  "kzalloc ok s =
     (if ok
      then (Some (length (kmalloc_heap s)),
            s\<lparr>kmalloc_heap := kmalloc_heap s @ [Some \<lparr>s_babysb = None, s_sbh = None\<rparr>]\<rparr>)
      else (None, s))"

definition kfree :: "nat \<Rightarrow> kstate \<Rightarrow> kstate" where
  "kfree p s = s\<lparr>kmalloc_heap := (kmalloc_heap s)[p := None]\<rparr>"

text \<open>Reading through a pointer into the heap; \<open>None\<close> when nothing live is there.\<close>

definition sbi_load :: "nat \<Rightarrow> kstate \<Rightarrow> baby_sb_info option" where
  "sbi_load p s = (if p < length (kmalloc_heap s) then kmalloc_heap s ! p else None)"

definition sbi_store :: "nat \<Rightarrow> baby_sb_info \<Rightarrow> kstate \<Rightarrow> kstate" where
  "sbi_store p v s = s\<lparr>kmalloc_heap := (kmalloc_heap s)[p := Some v]\<rparr>"

text \<open>sb_set_blocksize returns 0 and changes nothing, or sets the size and returns it.\<close>

definition sb_set_blocksize :: "nat \<Rightarrow> super_block \<Rightarrow> nat \<times> super_block" where
  "sb_set_blocksize ret sb = (if ret = 0 then (0, sb) else (ret, sb\<lparr>s_blocksize := ret\<rparr>))"

text \<open>sb_bread returns NULL, or a buffer with one more reference on it.\<close>

definition sb_bread :: "buffer_head option \<Rightarrow> kstate \<Rightarrow> buffer_head option \<times> kstate" where
  "sb_bread ret s =
     (case ret of
        None \<Rightarrow> (None, s)
      | Some bh \<Rightarrow> (Some bh, s\<lparr>b_count := (b_count s)(b_id bh := Suc (b_count s (b_id bh)))\<rparr>))"

text \<open>
  brelse drops one reference; on NULL it does nothing, and on a buffer with no
  reference left it only warns.
\<close>

definition brelse :: "buffer_head option \<Rightarrow> kstate \<Rightarrow> kstate" where
  "brelse b s =
     (case b of
        None \<Rightarrow> s
      | Some bh \<Rightarrow>
          if b_count s (b_id bh) = 0 then s
          else s\<lparr>b_count := (b_count s)(b_id bh := b_count s (b_id bh) - 1)\<rparr>)"

text \<open>d_make_root returns NULL for a NULL inode, the host's answer otherwise.\<close>

definition d_make_root :: "addr option \<Rightarrow> addr \<Rightarrow> addr option" where
  "d_make_root ret root_inode = (if root_inode = 0 then None else ret)"

subsection \<open>Mount and unmount (lines 12-65 and 138-146)\<close>

text \<open>
  \<^verbatim>\<open>babyfs_fill_super\<close>.  \<open>ret\<close> starts as \<open>- ENOMEM\<close> and is assigned only from
  \<^verbatim>\<open>PTR_ERR\<close> and before the second \<^verbatim>\<open>goto failed_mount\<close>; the label \<^verbatim>\<open>failed_mount\<close>
  calls brelse, the label \<^verbatim>\<open>failed\<close> only returns.
\<close>

definition babyfs_fill_super :: "host \<Rightarrow> super_block \<Rightarrow> kstate \<Rightarrow> int \<times> super_block \<times> kstate" where
  "babyfs_fill_super h sb s =
     (let ret = - ENOMEM in
      case kzalloc (kzalloc_ok h) s of
        (None, s1) \<Rightarrow> (ret, sb, s1)
      | (Some baby_sb_info, s1) \<Rightarrow>
          (case sb_set_blocksize (set_blocksize_ret h) sb of
             (r, sb1) \<Rightarrow>
               if r = 0 then (ret, sb1, s1)
               else
                 (case sb_bread (bread_ret h) s1 of
                    (None, s2) \<Rightarrow> (ret, sb1, s2)
                  | (Some bh, s2) \<Rightarrow>
                      (let baby_sb = b_data bh;
                           s3 = s2\<lparr>NR_DSTORE_BLOCKS := nr_dstore_blocks baby_sb\<rparr>;
                           sb2 = sb1\<lparr>s_magic := ucast (magic baby_sb),
                                     s_op := Some babyfs_super_opts\<rparr>;
                           s4 = sbi_store baby_sb_info
                                  \<lparr>s_babysb = Some baby_sb, s_sbh = Some bh\<rparr> s3;
                           sb3 = sb2\<lparr>s_fs_info := Some baby_sb_info\<rparr>;
                           root_vfs_inode = iget_ret h
                       in if IS_ERR root_vfs_inode
                          then (PTR_ERR root_vfs_inode, sb3, brelse (Some bh) s4)
                          else
                            (let sb4 = sb3\<lparr>s_root :=
                                             d_make_root (make_root_ret h) root_vfs_inode\<rparr>
                             in if s_root sb4 = None
                                then (- ENOMEM, sb4, brelse (Some bh) s4)
                                else (0, sb4, s4))))))"

text \<open>
  Modelled from the spec: \<^verbatim>\<open>BABY_SB\<close> is a macro of \<^verbatim>\<open>babyfs.h\<close>; it reads the instance's
  back-reference, the \<open>s_fs_info\<close> that \<^verbatim>\<open>babyfs_fill_super\<close> sets and
  \<^verbatim>\<open>baby_put_super\<close> clears.
\<close>

definition BABY_SB :: "super_block \<Rightarrow> nat option" where
  "BABY_SB sb = s_fs_info sb"

text \<open>
  \<^verbatim>\<open>baby_put_super\<close>.  Reading \<^verbatim>\<open>baby_sb_info->s_sbh\<close> through a pointer to freed memory
  is logged as an oops.
\<close>

definition baby_put_super :: "super_block \<Rightarrow> kstate \<Rightarrow> super_block \<times> kstate" where
  "baby_put_super sb s =
     (case BABY_SB sb of
        None \<Rightarrow> (sb, s)
      | Some baby_sb_info \<Rightarrow>
          (case sbi_load baby_sb_info s of
             None \<Rightarrow> (sb, log_event Ev_oops s)
           | Some sbi \<Rightarrow>
               (let s1 = brelse (s_sbh sbi) s;
                    sb1 = sb\<lparr>s_fs_info := None\<rparr>;
                    s2 = kfree baby_sb_info s1
                in (sb1, s2))))"

subsection \<open>The statistics operation (line 149)\<close>

text \<open>
  \<^verbatim>\<open>super.c\<close> has no statistics routine of its own: the \<open>statfs\<close> member of
  \<^verbatim>\<open>babyfs_super_opts\<close> is the host's generic \<^verbatim>\<open>simple_statfs\<close> (\<^verbatim>\<open>fs/libfs.c\<close> of the host
  kernel, not part of the sources).  It is given the superblock and a zeroed
  \<^verbatim>\<open>struct kstatfs\<close>, and sets three members: the type to \<open>s_magic\<close>, the block size
  to the host's page size and the name length to the host's \<^verbatim>\<open>NAME_MAX\<close>.  The two host
  constants are arguments of the model.
\<close>

record kstatfs =
  f_type :: "64 word"
  f_bsize :: nat
  f_blocks :: nat
  f_bfree :: nat
  f_bavail :: nat
  f_namelen :: nat

definition zero_kstatfs :: kstatfs where
  "zero_kstatfs =
     \<lparr>f_type = 0, f_bsize = 0, f_blocks = 0, f_bfree = 0, f_bavail = 0, f_namelen = 0\<rparr>"

definition simple_statfs :: "nat \<Rightarrow> nat \<Rightarrow> super_block \<Rightarrow> kstatfs \<Rightarrow> kstatfs" where
  "simple_statfs page_size name_max sb buf =
     buf\<lparr>f_type := s_magic sb, f_bsize := page_size, f_namelen := name_max\<rparr>"

text \<open>
  The host's statistics query on an instance: it zeroes the buffer and calls the
  \<open>statfs\<close> member of the instance's operations; without one there is no report.
\<close>

fun call_statfs :: "nat \<Rightarrow> nat \<Rightarrow> fn_ptr \<Rightarrow> super_block \<Rightarrow> kstatfs \<Rightarrow> kstatfs option" where
  "call_statfs page_size name_max Simple_statfs sb buf = Some (simple_statfs page_size name_max sb buf)"
| "call_statfs page_size name_max f sb buf = None"

definition statfs_by_dentry :: "nat \<Rightarrow> nat \<Rightarrow> super_block \<Rightarrow> kstatfs option" where
  "statfs_by_dentry page_size name_max sb =
     (case s_op sb of
        None \<Rightarrow> None
      | Some ops \<Rightarrow> call_statfs page_size name_max (statfs ops) sb zero_kstatfs)"

subsection \<open>Host primitives of the inode pool: slab cache and RCU\<close>

text \<open>
  \<^verbatim>\<open>inode_init_once\<close> is the host's one-time initializer of a generic inode; the model
  records each run and the inode it ran on.
\<close>

definition inode_init_once :: "addr \<Rightarrow> kstate \<Rightarrow> kstate" where
  "inode_init_once inode s = log_event (Ev_inode_init_once inode) s"

text \<open>\<^verbatim>\<open>init_once\<close> (lines 104-108): \<open>foo\<close> is the slot, \<^verbatim>\<open>&bbi->vfs_inode\<close> its inode.\<close>

definition init_once :: "layout \<Rightarrow> addr \<Rightarrow> kstate \<Rightarrow> kstate" where
  "init_once L foo s = (let bbi = foo in inode_init_once (bbi + off_vfs_inode L) s)"

fun call_ctor :: "layout \<Rightarrow> ctor_fn option \<Rightarrow> addr \<Rightarrow> kstate \<Rightarrow> kstate" where
  "call_ctor L None obj s = s"
| "call_ctor L (Some Init_once) obj s = init_once L obj s"

text \<open>
  \<^verbatim>\<open>kmem_cache_create_usercopy\<close>: NULL when the host has no memory, a new empty cache
  with the constructor it was given otherwise.
\<close>

definition kmem_cache_create_usercopy :: "bool \<Rightarrow> ctor_fn \<Rightarrow> kstate \<Rightarrow> kmem_cache option \<times> kstate" where
  "kmem_cache_create_usercopy ok ctor s =
     (let s1 = log_event Ev_kmem_cache_create s
      in if ok
         then (Some \<lparr>c_ctor = Some ctor, c_slots = [], c_free = [], c_alive = True\<rparr>, s1)
         else (None, s1))"

text \<open>
  Modelled from the spec: the slab allocator is the host's.  \<^verbatim>\<open>kmem_cache_alloc\<close> on
  \<^verbatim>\<open>baby_inode_cachep\<close> hands out a free slot as it is; only when none is free does it
  carve new slots from bulk storage (\<open>grow\<close>, the host's answer: the slots of the new
  slab, none when memory is exhausted), run the cache's constructor on each of them,
  and hand out the first.  A cache that is NULL or destroyed is an oops.
\<close>

definition kmem_cache_alloc :: "layout \<Rightarrow> addr list \<Rightarrow> kstate \<Rightarrow> addr option \<times> kstate" where
  "kmem_cache_alloc L grow s =
     (case baby_inode_cachep s of
        None \<Rightarrow> (None, log_event Ev_oops s)
      | Some c \<Rightarrow>
          if \<not> c_alive c then (None, log_event Ev_oops s)
          else
            (case c_free c of
               obj # rest \<Rightarrow> (Some obj, s\<lparr>baby_inode_cachep := Some (c\<lparr>c_free := rest\<rparr>)\<rparr>)
             | [] \<Rightarrow>
                 (case grow of
                    [] \<Rightarrow> (None, s)
                  | obj # rest \<Rightarrow>
                      (let s1 = fold (call_ctor L (c_ctor c)) grow s
                       in (Some obj,
                           s1\<lparr>baby_inode_cachep :=
                                 Some (c\<lparr>c_slots := c_slots c @ grow, c_free := rest\<rparr>)\<rparr>)))))"

text \<open>\<^verbatim>\<open>kmem_cache_free\<close> puts the slot back on the free list; no constructor runs.\<close>

definition kmem_cache_free :: "addr \<Rightarrow> kstate \<Rightarrow> kstate" where
  "kmem_cache_free obj s =
     (case baby_inode_cachep s of
        None \<Rightarrow> log_event Ev_oops s
      | Some c \<Rightarrow>
          if \<not> c_alive c then log_event Ev_oops s
          else log_event (Ev_kmem_cache_free obj)
                 (s\<lparr>baby_inode_cachep := Some (c\<lparr>c_free := obj # c_free c\<rparr>)\<rparr>))"

text \<open>\<^verbatim>\<open>kmem_cache_destroy\<close> does nothing on NULL and destroys the cache otherwise.\<close>

definition kmem_cache_destroy :: "kstate \<Rightarrow> kstate" where
  "kmem_cache_destroy s =
     (case baby_inode_cachep s of
        None \<Rightarrow> s
      | Some c \<Rightarrow>
          log_event Ev_kmem_cache_destroy (s\<lparr>baby_inode_cachep := Some (c\<lparr>c_alive := False\<rparr>)\<rparr>))"

text \<open>\<^verbatim>\<open>container_of(ptr, type, member)\<close> is \<open>ptr - offsetof(type, member)\<close>.\<close>

definition container_of :: "addr \<Rightarrow> addr \<Rightarrow> addr" where
  "container_of ptr member_offset = ptr - member_offset"

text \<open>
  Modelled from the spec: \<^verbatim>\<open>BABY_I\<close> is a macro of \<^verbatim>\<open>babyfs.h\<close>; it gives the wrapper
  (\<^verbatim>\<open>struct baby_inode_info\<close>) that contains a generic inode as its \<^verbatim>\<open>vfs_inode\<close>.
\<close>

definition BABY_I :: "layout \<Rightarrow> addr \<Rightarrow> addr" where
  "BABY_I L inode = container_of inode (off_vfs_inode L)"

text \<open>\<^verbatim>\<open>call_rcu\<close> queues the callback; it runs later, after a grace period.\<close>

definition call_rcu :: "addr \<Rightarrow> rcu_fn \<Rightarrow> kstate \<Rightarrow> kstate" where
  "call_rcu head func s = s\<lparr>rcu_pending := rcu_pending s @ [(head, func)]\<rparr>"

subsection \<open>The inode pool (lines 80-136)\<close>

definition baby_alloc_inode :: "layout \<Rightarrow> addr list \<Rightarrow> kstate \<Rightarrow> addr option \<times> kstate" where
  "baby_alloc_inode L grow s =
     (case kmem_cache_alloc L grow s of
        (None, s1) \<Rightarrow> (None, s1)
      | (Some bbi, s1) \<Rightarrow> (Some (bbi + off_vfs_inode L), s1))"

definition baby_i_callback :: "layout \<Rightarrow> addr \<Rightarrow> kstate \<Rightarrow> kstate" where
  "baby_i_callback L head s =
     (let inode = container_of head (off_i_rcu L)
      in kmem_cache_free (BABY_I L inode) s)"

definition baby_destroy_inode :: "layout \<Rightarrow> addr \<Rightarrow> kstate \<Rightarrow> kstate" where
  "baby_destroy_inode L inode s = call_rcu (inode + off_i_rcu L) Baby_i_callback s"

fun run_rcu_fn :: "layout \<Rightarrow> addr \<times> rcu_fn \<Rightarrow> kstate \<Rightarrow> kstate" where
  "run_rcu_fn L (head, Baby_i_callback) s = baby_i_callback L head s"

text \<open>
  The host runs a queued callback once its grace period is over: \<open>rcu_grace\<close> is one
  such step (the oldest callback), and \<^verbatim>\<open>rcu_barrier\<close> returns only when every callback
  queued before it has run.
\<close>

definition rcu_grace :: "layout \<Rightarrow> kstate \<Rightarrow> kstate" where
  "rcu_grace L s =
     (case rcu_pending s of
        [] \<Rightarrow> s
      | cb # rest \<Rightarrow> run_rcu_fn L cb (s\<lparr>rcu_pending := rest\<rparr>))"

definition rcu_barrier :: "layout \<Rightarrow> kstate \<Rightarrow> kstate" where
  "rcu_barrier L s =
     fold (run_rcu_fn L) (rcu_pending s) (log_event Ev_rcu_barrier (s\<lparr>rcu_pending := []\<rparr>))"

definition init_inodecache :: "bool \<Rightarrow> kstate \<Rightarrow> int \<times> kstate" where
  "init_inodecache ok s =
     (case kmem_cache_create_usercopy ok Init_once s of
        (cachep, s1) \<Rightarrow>
          (let s2 = s1\<lparr>baby_inode_cachep := cachep\<rparr>
           in if baby_inode_cachep s2 = None then (- ENOMEM, s2) else (0, s2)))"

definition destroy_inodecache :: "layout \<Rightarrow> kstate \<Rightarrow> kstate" where
  "destroy_inodecache L s = kmem_cache_destroy (rcu_barrier L s)"

subsection \<open>Module load and unload (lines 156-186)\<close>

text \<open>
  \<^verbatim>\<open>register_filesystem\<close> returns 0 and adds the type, or returns the host's error;
  \<^verbatim>\<open>unregister_filesystem\<close> removes the type.
\<close>

definition register_filesystem :: "int \<Rightarrow> kstate \<Rightarrow> int \<times> kstate" where
  "register_filesystem ret s =
     (let s1 = log_event Ev_register_filesystem s
      in if ret = 0 then (0, s1\<lparr>filesystems := ''babyfs'' # filesystems s1\<rparr>) else (ret, s1))"

definition unregister_filesystem :: "kstate \<Rightarrow> kstate" where
  "unregister_filesystem s =
     (let s1 = log_event Ev_unregister_filesystem s
      in s1\<lparr>filesystems := remove1 ''babyfs'' (filesystems s1)\<rparr>)"

definition init_babyfs :: "layout \<Rightarrow> bool \<Rightarrow> int \<Rightarrow> kstate \<Rightarrow> int \<times> kstate" where
  "init_babyfs L cache_ok register_ret s =
     (case init_inodecache cache_ok s of
        (err, s1) \<Rightarrow>
          if err \<noteq> 0 then (err, s1)
          else
            (case register_filesystem register_ret s1 of
               (err', s2) \<Rightarrow>
                 if err' \<noteq> 0 then (err', destroy_inodecache L s2)
                 else (0, s2)))"

definition exit_babyfs :: "layout \<Rightarrow> kstate \<Rightarrow> kstate" where
  "exit_babyfs L s = destroy_inodecache L (unregister_filesystem s)"

subsection \<open>Runs of the pool\<close>

text \<open>
  What can happen to the pool between its creation and its teardown: an allocation
  (with the host's answer should the cache have to grow), a reclamation of an inode, and
  the host running the oldest queued callback.
\<close>

datatype pool_op = Op_alloc "addr list" | Op_reclaim addr | Op_grace

fun pool_step :: "layout \<Rightarrow> pool_op \<Rightarrow> kstate \<Rightarrow> kstate" where
  "pool_step L (Op_alloc grow) s = snd (baby_alloc_inode L grow s)"
| "pool_step L (Op_reclaim inode) s = baby_destroy_inode L inode s"
| "pool_step L Op_grace s = rcu_grace L s"

definition run_pool :: "layout \<Rightarrow> pool_op list \<Rightarrow> kstate \<Rightarrow> kstate" where
  "run_pool L ops s = fold (pool_step L) ops s"

text \<open>The inodes the one-time initializer ran on, in order, as the log has them.\<close>

fun inits :: "event list \<Rightarrow> addr list" where
  "inits [] = []"
| "inits (Ev_inode_init_once p # es) = p # inits es"
| "inits (e # es) = inits es"

text \<open>
  The slots the queued callbacks will give back, oldest first (\<open>pending_slots\<close>), and
  the frees they will log (\<open>pending_frees\<close>).
\<close>

definition pending_slots :: "layout \<Rightarrow> kstate \<Rightarrow> addr list" where
  "pending_slots L s =
     map (\<lambda>cb. BABY_I L (container_of (fst cb) (off_i_rcu L))) (rcu_pending s)"


definition pending_frees :: "layout \<Rightarrow> kstate \<Rightarrow> event list" where
  "pending_frees L s =
     map (\<lambda>cb. Ev_kmem_cache_free (BABY_I L (container_of (fst cb) (off_i_rcu L)))) (rcu_pending s)"

text \<open>An empty machine: nothing allocated, no cache, nothing registered.\<close>

definition boot :: kstate where
  "boot =
     \<lparr>NR_DSTORE_BLOCKS = 0, baby_inode_cachep = None, kmalloc_heap = [],
      b_count = (\<lambda>b. 0), rcu_pending = [], filesystems = [], trace = []\<rparr>"

definition empty_sb :: super_block where
  "empty_sb = \<lparr>s_blocksize = 0, s_magic = 0, s_op = None, s_fs_info = None, s_root = None\<rparr>"

subsection \<open>Concrete inputs\<close>

text \<open>
  A superblock block with magic \<open>0xBABE1234\<close> and 1000 data-store blocks, one with 2000,
  a host on which a mount succeeds, and three on which it fails.
\<close>

definition superblock_1000 :: buffer_head where
  "superblock_1000 = \<lparr>b_id = 7, b_data = \<lparr>magic = 0xBABE1234, nr_dstore_blocks = 1000\<rparr>\<rparr>"

definition superblock_2000 :: buffer_head where
  "superblock_2000 = \<lparr>b_id = 8, b_data = \<lparr>magic = 0xBABE1234, nr_dstore_blocks = 2000\<rparr>\<rparr>"

definition host_ok :: host where
  "host_ok =
     \<lparr>kzalloc_ok = True, set_blocksize_ret = 1024, bread_ret = Some superblock_1000,
      iget_ret = 0x1000, make_root_ret = Some 0x2000\<rparr>"

definition host_second :: host where
  "host_second = host_ok\<lparr>bread_ret := Some superblock_2000\<rparr>"

definition host_blocksize_refused :: host where
  "host_blocksize_refused = host_ok\<lparr>set_blocksize_ret := 0\<rparr>"

definition host_root_missing :: host where
  "host_root_missing = host_ok\<lparr>iget_ret := ERR_PTR (- ENOENT)\<rparr>"

text \<open>The state and the instance after a successful mount on \<open>host_ok\<close>.\<close>

definition mounted_sb :: super_block where
  "mounted_sb = fst (snd (babyfs_fill_super host_ok empty_sb boot))"

definition mounted :: kstate where
  "mounted = snd (snd (babyfs_fill_super host_ok empty_sb boot))"

text \<open>The instance after a successful mount of the block that records 2000 blocks.\<close>

definition mounted_sb_2000 :: super_block where
  "mounted_sb_2000 = fst (snd (babyfs_fill_super host_second empty_sb boot))"

text \<open>
  A layout, the state with the pool created, and a run of the pool: an allocation that
  carves two slots, a reclamation of the inode handed out and its grace period, two
  allocations served from the free list, and one that has to carve again.
\<close>

definition layout_ex :: layout where
  "layout_ex = \<lparr>off_vfs_inode = 0x40, off_i_rcu = 0x100\<rparr>"

definition pool_ready :: kstate where
  "pool_ready = snd (init_inodecache True boot)"

definition ops_ex :: "pool_op list" where
  "ops_ex =
     [Op_alloc [0x10000, 0x10400], Op_reclaim 0x10040, Op_grace,
      Op_alloc [0x20000], Op_alloc [], Op_alloc [0x20000]]"

text \<open>The pool with two inodes handed out and both reclaimed, neither freed yet.\<close>

definition pool_two_pending :: kstate where
  "pool_two_pending =
     run_pool layout_ex
       [Op_alloc [0x10000, 0x10400], Op_alloc [], Op_reclaim 0x10040, Op_reclaim 0x10440]
       pool_ready"

text \<open>The pool after one allocation that carved two slots: one is handed out, one free.\<close>

definition pool_one_free :: kstate where
  "pool_one_free = run_pool layout_ex [Op_alloc [0x10000, 0x10400]] pool_ready"

section \<open>Mount\<close>

lemmas mount_defs =
  babyfs_fill_super_def kzalloc_def sb_set_blocksize_def sb_bread_def brelse_def
  sbi_store_def d_make_root_def Let_def

lemma IS_ERR_negative:
  assumes "IS_ERR ptr"
  shows "- 4095 \<le> PTR_ERR ptr \<and> PTR_ERR ptr < 0"
proof -
  have "uint (- 4095 :: 64 word) \<le> uint ptr"
    using assms by (simp add: IS_ERR_def word_le_def)
  then have lo: "2 ^ 64 - 4095 \<le> uint ptr"
    by simp
  have hi: "uint ptr < 2 ^ 64"
    using uint_bounded [of ptr] by simp
  define x where "x = uint ptr + 2 ^ 63"
  have "sint ptr = x mod 2 ^ 64 - 2 ^ 63"
    using int_word_sint [of "uint ptr", where 'a = 64] by (simp add: x_def)
  moreover have "x mod 2 ^ 64 = (x - 2 ^ 64) mod (2 ^ 64 :: int)"
    by (rule minus_mod_self2 [symmetric])
  moreover have "(x - 2 ^ 64) mod (2 ^ 64 :: int) = x - 2 ^ 64"
    using lo hi by (intro mod_pos_pos_trivial) (simp_all add: x_def)
  moreover have "x - 2 ^ 64 - 2 ^ 63 = uint ptr - 2 ^ 64"
    by (simp add: x_def)
  ultimately have "sint ptr = uint ptr - 2 ^ 64"
    by simp
  then show ?thesis
    using lo hi by (simp add: PTR_ERR_def)
qed


lemma fill_super_success:
  assumes "fst (babyfs_fill_super h sb s) = 0"
  shows "kzalloc_ok h \<and> set_blocksize_ret h \<noteq> 0 \<and> bread_ret h \<noteq> None
         \<and> \<not> IS_ERR (iget_ret h) \<and> d_make_root (make_root_ret h) (iget_ret h) \<noteq> None"
proof -
  have a: "kzalloc_ok h"
    using assms by (simp add: mount_defs ENOMEM_def split: if_splits)
  have b: "set_blocksize_ret h \<noteq> 0"
    using assms a by (simp add: mount_defs ENOMEM_def split: if_splits)
  have c: "bread_ret h \<noteq> None"
  proof
    assume "bread_ret h = None"
    then have "fst (babyfs_fill_super h sb s) = - ENOMEM"
      using a b by (simp add: mount_defs)
    with assms show False
      by (simp add: ENOMEM_def)
  qed
  then obtain bh where bh: "bread_ret h = Some bh"
    by auto
  have d: "\<not> IS_ERR (iget_ret h)"
  proof
    assume e: "IS_ERR (iget_ret h)"
    then have "fst (babyfs_fill_super h sb s) = PTR_ERR (iget_ret h)"
      using a b bh by (simp add: mount_defs)
    with IS_ERR_negative [OF e] assms show False
      by simp
  qed
  have "d_make_root (make_root_ret h) (iget_ret h) \<noteq> None"
    using assms a b bh d by (simp add: babyfs_fill_super_def kzalloc_def sb_set_blocksize_def
        sb_bread_def Let_def ENOMEM_def split: if_splits)
  with a b c d show ?thesis
    by simp
qed

lemma fill_super_success_result:
  assumes "fst (babyfs_fill_super h sb s) = 0" and "bread_ret h = Some bh"
  shows "babyfs_fill_super h sb s =
     (0,
      sb\<lparr>s_blocksize := set_blocksize_ret h, s_magic := ucast (magic (b_data bh)),
         s_op := Some babyfs_super_opts, s_fs_info := Some (length (kmalloc_heap s)),
         s_root := d_make_root (make_root_ret h) (iget_ret h)\<rparr>,
      s\<lparr>kmalloc_heap := kmalloc_heap s @ [Some \<lparr>s_babysb = Some (b_data bh), s_sbh = Some bh\<rparr>],
        b_count := (b_count s)(b_id bh := Suc (b_count s (b_id bh))),
        NR_DSTORE_BLOCKS := nr_dstore_blocks (b_data bh)\<rparr>)"
proof -
  obtain d where "d_make_root (make_root_ret h) (iget_ret h) = Some d"
    using fill_super_success [OF assms(1)] by auto
  then show ?thesis
    using fill_super_success [OF assms(1)] assms(2)
    by (simp add: babyfs_fill_super_def kzalloc_def sb_set_blocksize_def sb_bread_def
        sbi_store_def Let_def)
qed

lemmas ptr_defs = IS_ERR_def PTR_ERR_def ERR_PTR_def

text \<open>
  C1.  On a device that cannot be set to the block size, with kzalloc having succeeded,
  \<^verbatim>\<open>babyfs_fill_super\<close> returns \<open>- ENOMEM\<close>, which is not \<open>- EIO\<close>, and the
  \<^verbatim>\<open>baby_sb_info\<close> it allocated first is still on the heap when it returns: the jump to
  \<^verbatim>\<open>failed\<close> neither sets \<open>ret\<close> nor frees the object.
\<close>

theorem fill_super_blocksize_refused:
  "babyfs_fill_super host_blocksize_refused empty_sb boot =
     (- ENOMEM, empty_sb, boot\<lparr>kmalloc_heap := [Some \<lparr>s_babysb = None, s_sbh = None\<rparr>]\<rparr>)
   \<and> - ENOMEM \<noteq> - EIO
   \<and> sbi_load 0 (snd (snd (babyfs_fill_super host_blocksize_refused empty_sb boot)))
       = Some \<lparr>s_babysb = None, s_sbh = None\<rparr>"
  by (simp add: mount_defs host_blocksize_refused_def host_ok_def boot_def empty_sb_def
      ENOMEM_def EIO_def sbi_load_def)

text \<open>
  C2.  When \<^verbatim>\<open>baby_iget\<close> answers \<open>- ENOENT\<close>, \<^verbatim>\<open>babyfs_fill_super\<close> returns that error
  and the reference it took on the superblock buffer is dropped again (the count is
  what it was before the mount).  The \<^verbatim>\<open>baby_sb_info\<close> of the failed mount stays on the
  heap, which was empty before, and \<open>s_fs_info\<close> still points to it.
\<close>

theorem fill_super_root_missing:
  "fst (babyfs_fill_super host_root_missing empty_sb boot) = - ENOENT
   \<and> b_count (snd (snd (babyfs_fill_super host_root_missing empty_sb boot))) (b_id superblock_1000)
       = b_count boot (b_id superblock_1000)
   \<and> s_fs_info (fst (snd (babyfs_fill_super host_root_missing empty_sb boot))) = Some 0
   \<and> sbi_load 0 (snd (snd (babyfs_fill_super host_root_missing empty_sb boot)))
       = Some \<lparr>s_babysb = Some (b_data superblock_1000), s_sbh = Some superblock_1000\<rparr>
   \<and> sbi_load 0 boot = None"
  by (simp add: mount_defs ptr_defs host_root_missing_def host_ok_def boot_def empty_sb_def
      ENOMEM_def ENOENT_def sbi_load_def superblock_1000_def)




lemma fill_super_reads:
  assumes "kzalloc_ok h" and "set_blocksize_ret h \<noteq> 0" and "bread_ret h = Some bh"
  shows "NR_DSTORE_BLOCKS (snd (snd (babyfs_fill_super h sb s))) = nr_dstore_blocks (b_data bh)"
  using assms
  by (simp add: mount_defs)

text \<open>
  C9.  \<open>NR_DSTORE_BLOCKS\<close> is one variable of the state, not a member of the instance.
  Every mount that gets as far as reading its superblock block (every successful mount
  does, by \<open>fill_super_success\<close>) stores the block count of that block there, so after
  a second mount the variable holds the second instance's count, whatever the first
  one stored.
\<close>

theorem fill_super_sets_global:
  assumes "kzalloc_ok h1" and "set_blocksize_ret h1 \<noteq> 0" and "bread_ret h1 = Some bh1"
    and "kzalloc_ok h2" and "set_blocksize_ret h2 \<noteq> 0" and "bread_ret h2 = Some bh2"
  shows "NR_DSTORE_BLOCKS (snd (snd (babyfs_fill_super h1 sb1 s)))
           = nr_dstore_blocks (b_data bh1)
         \<and> NR_DSTORE_BLOCKS
             (snd (snd (babyfs_fill_super h2 sb2 (snd (snd (babyfs_fill_super h1 sb1 s))))))
           = nr_dstore_blocks (b_data bh2)"
  using assms by (simp add: fill_super_reads)

theorem fill_super_sets_global_witness:
  "fst (babyfs_fill_super host_ok empty_sb boot) = 0
   \<and> NR_DSTORE_BLOCKS (snd (snd (babyfs_fill_super host_ok empty_sb boot))) = 1000
   \<and> fst (babyfs_fill_super host_second empty_sb
            (snd (snd (babyfs_fill_super host_ok empty_sb boot)))) = 0
   \<and> NR_DSTORE_BLOCKS
        (snd (snd (babyfs_fill_super host_second empty_sb
                     (snd (snd (babyfs_fill_super host_ok empty_sb boot)))))) = 2000"
proof -
  have a: "kzalloc_ok host_ok" "set_blocksize_ret host_ok \<noteq> 0"
    "bread_ret host_ok = Some superblock_1000"
    by (simp_all add: host_ok_def)
  have b: "kzalloc_ok host_second" "set_blocksize_ret host_second \<noteq> 0"
    "bread_ret host_second = Some superblock_2000"
    by (simp_all add: host_second_def host_ok_def)
  have ok1: "fst (babyfs_fill_super host_ok empty_sb boot) = 0"
    by (simp add: mount_defs ptr_defs host_ok_def boot_def empty_sb_def)
  have ok2: "fst (babyfs_fill_super host_second empty_sb
            (snd (snd (babyfs_fill_super host_ok empty_sb boot)))) = 0"
    by (simp add: mount_defs ptr_defs host_second_def host_ok_def boot_def empty_sb_def)
  from fill_super_sets_global [OF a b, of empty_sb boot empty_sb] ok1 ok2
  show ?thesis
    by (simp add: superblock_1000_def superblock_2000_def)
qed

section \<open>Statistics\<close>

lemma statfs_babyfs:
  assumes "s_op sb = Some babyfs_super_opts"
  shows "statfs_by_dentry page_size name_max sb =
     Some \<lparr>f_type = s_magic sb, f_bsize = page_size, f_blocks = 0, f_bfree = 0, f_bavail = 0,
           f_namelen = name_max\<rparr>"
  using assms
  by (simp add: statfs_by_dentry_def babyfs_super_opts_def simple_statfs_def zero_kstatfs_def)

text \<open>
  C3, as stated, fails.  After the successful mount of the block with magic
  \<open>0xBABE1234\<close> and block count 1000 (the global holds 1000), the statistics query
  reports 0 total and 0 free blocks, and the report is the same as after the mount of
  the block that records 2000 blocks.
\<close>

theorem statfs_block_count_not_reported:
  "fst (babyfs_fill_super host_ok empty_sb boot) = 0
   \<and> NR_DSTORE_BLOCKS mounted = 1000
   \<and> statfs_by_dentry 4096 255 mounted_sb =
       Some \<lparr>f_type = 0xBABE1234, f_bsize = 4096, f_blocks = 0, f_bfree = 0, f_bavail = 0,
             f_namelen = 255\<rparr>
   \<and> fst (babyfs_fill_super host_second empty_sb boot) = 0
   \<and> statfs_by_dentry 4096 255 mounted_sb_2000 = statfs_by_dentry 4096 255 mounted_sb"
  by (simp add: mounted_sb_def mounted_sb_2000_def mounted_def mount_defs ptr_defs host_ok_def
      host_second_def boot_def empty_sb_def superblock_1000_def superblock_2000_def
      statfs_by_dentry_def babyfs_super_opts_def simple_statfs_def zero_kstatfs_def)

text \<open>
  C3, amended.  After a successful mount the statistics query is the host's generic
  one: it reports the magic of the superblock block as the type, the host's page size
  and its longest name, and 0 total, free and available blocks, whatever block count
  the superblock block records.
\<close>

theorem statfs_after_mount:
  assumes "fst (babyfs_fill_super h sb s) = 0" and "bread_ret h = Some bh"
  shows "statfs_by_dentry page_size name_max (fst (snd (babyfs_fill_super h sb s))) =
     Some \<lparr>f_type = ucast (magic (b_data bh)), f_bsize = page_size, f_blocks = 0, f_bfree = 0,
           f_bavail = 0, f_namelen = name_max\<rparr>"
proof -
  have "s_op (fst (snd (babyfs_fill_super h sb s))) = Some babyfs_super_opts"
    and "s_magic (fst (snd (babyfs_fill_super h sb s))) = ucast (magic (b_data bh))"
    by (simp_all add: fill_super_success_result [OF assms])
  then show ?thesis
    by (simp add: statfs_babyfs)
qed

theorem statfs_after_mount_witness:
  "fst (babyfs_fill_super host_ok empty_sb boot) = 0
   \<and> bread_ret host_ok = Some superblock_1000
   \<and> nr_dstore_blocks (b_data superblock_1000) = 1000
   \<and> statfs_by_dentry 4096 255 (fst (snd (babyfs_fill_super host_ok empty_sb boot))) =
       Some \<lparr>f_type = 0xBABE1234, f_bsize = 4096, f_blocks = 0, f_bfree = 0, f_bavail = 0,
             f_namelen = 255\<rparr>"
proof -
  have ok: "fst (babyfs_fill_super host_ok empty_sb boot) = 0"
    by (simp add: mount_defs ptr_defs host_ok_def boot_def empty_sb_def)
  have bh: "bread_ret host_ok = Some superblock_1000"
    by (simp add: host_ok_def)
  from statfs_after_mount [OF ok bh, of 4096 255] ok bh show ?thesis
    by (simp add: superblock_1000_def)
qed

section \<open>Unmount\<close>

lemma put_super_detached: "s_fs_info sb = None \<Longrightarrow> baby_put_super sb s = (sb, s)"
  by (simp add: baby_put_super_def BABY_SB_def)

lemma put_super_attached:
  assumes "s_fs_info sb = Some p" and "sbi_load p s = Some sbi"
  shows "baby_put_super sb s = (sb\<lparr>s_fs_info := None\<rparr>, kfree p (brelse (s_sbh sbi) s))"
  using assms by (simp add: baby_put_super_def BABY_SB_def)

lemma sbi_load_kfree: "sbi_load p (kfree p s) = None"
  by (simp add: sbi_load_def kfree_def)

lemma b_count_kfree: "b_count (kfree p s) = b_count s"
  by (simp add: kfree_def)

lemma b_count_brelse:
  "0 < b_count s (b_id bh) \<Longrightarrow>
     b_count (brelse (Some bh) s) = (b_count s)(b_id bh := b_count s (b_id bh) - 1)"
  by (simp add: brelse_def)

text \<open>
  C7.  On an attached instance (\<open>s_fs_info\<close> points to a live \<^verbatim>\<open>baby_sb_info\<close> that holds
  a pinned buffer) \<^verbatim>\<open>baby_put_super\<close> clears \<open>s_fs_info\<close>, frees the \<^verbatim>\<open>baby_sb_info\<close>
  and drops exactly one reference of that buffer and none of any other; a second call,
  on the instance and state the first one left, changes nothing.
\<close>

theorem put_super_idempotent:
  assumes "s_fs_info sb = Some p" and "sbi_load p s = Some sbi" and "s_sbh sbi = Some bh"
    and "0 < b_count s (b_id bh)"
  shows "s_fs_info (fst (baby_put_super sb s)) = None
     \<and> sbi_load p (snd (baby_put_super sb s)) = None
     \<and> Suc (b_count (snd (baby_put_super sb s)) (b_id bh)) = b_count s (b_id bh)
     \<and> (\<forall>b. b \<noteq> b_id bh \<longrightarrow> b_count (snd (baby_put_super sb s)) b = b_count s b)
     \<and> baby_put_super (fst (baby_put_super sb s)) (snd (baby_put_super sb s))
         = baby_put_super sb s"
proof -
  have eq: "baby_put_super sb s = (sb\<lparr>s_fs_info := None\<rparr>, kfree p (brelse (Some bh) s))"
    using put_super_attached [OF assms(1,2)] assms(3) by simp
  have again: "baby_put_super (sb\<lparr>s_fs_info := None\<rparr>) (kfree p (brelse (Some bh) s))
      = (sb\<lparr>s_fs_info := None\<rparr>, kfree p (brelse (Some bh) s))"
    by (rule put_super_detached) simp
  show ?thesis
    using assms(4) by (simp add: eq again sbi_load_kfree b_count_kfree b_count_brelse)
qed

lemma mounted_eval:
  "mounted_sb = \<lparr>s_blocksize = 1024, s_magic = 0xBABE1234, s_op = Some babyfs_super_opts,
                 s_fs_info = Some 0, s_root = Some 0x2000\<rparr>"
  "mounted = boot\<lparr>NR_DSTORE_BLOCKS := 1000,
                  kmalloc_heap := [Some \<lparr>s_babysb = Some (b_data superblock_1000),
                                         s_sbh = Some superblock_1000\<rparr>],
                  b_count := (\<lambda>b. 0)(7 := 1)\<rparr>"
  by (simp_all add: mounted_sb_def mounted_def mount_defs ptr_defs host_ok_def boot_def
      empty_sb_def superblock_1000_def)

theorem put_super_idempotent_witness:
  "fst (babyfs_fill_super host_ok empty_sb boot) = 0
   \<and> b_count mounted 7 = 1
   \<and> s_fs_info (fst (baby_put_super mounted_sb mounted)) = None
   \<and> sbi_load 0 (snd (baby_put_super mounted_sb mounted)) = None
   \<and> b_count (snd (baby_put_super mounted_sb mounted)) 7 = 0
   \<and> baby_put_super (fst (baby_put_super mounted_sb mounted))
        (snd (baby_put_super mounted_sb mounted)) = baby_put_super mounted_sb mounted"
proof -
  have ok: "fst (babyfs_fill_super host_ok empty_sb boot) = 0"
    by (simp add: mount_defs ptr_defs host_ok_def boot_def empty_sb_def)
  have pre: "s_fs_info mounted_sb = Some 0"
    "sbi_load 0 mounted = Some \<lparr>s_babysb = Some (b_data superblock_1000), s_sbh = Some superblock_1000\<rparr>"
    "s_sbh \<lparr>s_babysb = Some (b_data superblock_1000), s_sbh = Some superblock_1000\<rparr> = Some superblock_1000"
    "0 < b_count mounted (b_id superblock_1000)"
    by (simp_all add: mounted_eval sbi_load_def boot_def superblock_1000_def)
  have cnt: "b_count mounted 7 = 1" "b_id superblock_1000 = 7"
    by (simp_all add: mounted_eval superblock_1000_def)
  from put_super_idempotent [OF pre] ok cnt show ?thesis
    by simp
qed

text \<open>
  A successful mount followed by \<^verbatim>\<open>baby_put_super\<close>: every buffer has the reference
  count it had before the mount, and the one \<^verbatim>\<open>baby_sb_info\<close> the mount allocated is
  freed.
\<close>

lemma mount_unmount_pair:
  assumes "babyfs_fill_super h sb s = (0, sb1, s1)"
  shows "b_count (snd (baby_put_super sb1 s1)) = b_count s
     \<and> kmalloc_heap (snd (baby_put_super sb1 s1)) = kmalloc_heap s @ [None]
     \<and> s_fs_info (fst (baby_put_super sb1 s1)) = None"
proof -
  have ok: "fst (babyfs_fill_super h sb s) = 0"
    using assms by simp
  then obtain bh where bh: "bread_ret h = Some bh"
    using fill_super_success [OF ok] by auto
  have sb1: "s_fs_info sb1 = Some (length (kmalloc_heap s))"
    and s1: "s1 = s\<lparr>kmalloc_heap := kmalloc_heap s @ [Some \<lparr>s_babysb = Some (b_data bh), s_sbh = Some bh\<rparr>],
        b_count := (b_count s)(b_id bh := Suc (b_count s (b_id bh))),
        NR_DSTORE_BLOCKS := nr_dstore_blocks (b_data bh)\<rparr>"
    using fill_super_success_result [OF ok bh] assms by simp_all
  have load: "sbi_load (length (kmalloc_heap s)) s1
      = Some \<lparr>s_babysb = Some (b_data bh), s_sbh = Some bh\<rparr>"
    by (simp add: s1 sbi_load_def)
  show ?thesis
    by (simp add: put_super_attached [OF sb1 load]) (simp add: s1 kfree_def brelse_def)
qed

section \<open>The inode pool\<close>

lemma inits_append: "inits (xs @ ys) = inits xs @ inits ys"
  by (induction xs rule: inits.induct) simp_all

lemma inits_init_events: "inits (map (\<lambda>slot. Ev_inode_init_once (f slot)) xs) = map f xs"
  by (induction xs) simp_all

lemma inits_free_events: "inits (map (\<lambda>cb. Ev_kmem_cache_free (f cb)) xs) = []"
  by (induction xs) simp_all

lemma run_rcu_fn_eq: "run_rcu_fn L cb s = kmem_cache_free (BABY_I L (container_of (fst cb) (off_i_rcu L))) s"
proof (cases cb)
  case (Pair head func)
  then show ?thesis
    by (cases func) (simp add: baby_i_callback_def)
qed

lemma kmem_cache_free_alive:
  assumes "baby_inode_cachep s = Some c" and "c_alive c"
  shows "kmem_cache_free obj s =
     s\<lparr>baby_inode_cachep := Some (c\<lparr>c_free := obj # c_free c\<rparr>),
       trace := trace s @ [Ev_kmem_cache_free obj]\<rparr>"
  using assms by (simp add: kmem_cache_free_def log_event_def)

text \<open>Running queued callbacks against a live cache: each frees its slot, in order.\<close>

lemma run_callbacks:
  assumes "baby_inode_cachep s = Some c" and "c_alive c"
  shows "trace (fold (run_rcu_fn L) cbs s)
           = trace s @ map (\<lambda>cb. Ev_kmem_cache_free (BABY_I L (container_of (fst cb) (off_i_rcu L)))) cbs
     \<and> baby_inode_cachep (fold (run_rcu_fn L) cbs s)
           = Some (c\<lparr>c_free := rev (map (\<lambda>cb. BABY_I L (container_of (fst cb) (off_i_rcu L))) cbs) @ c_free c\<rparr>)
     \<and> rcu_pending (fold (run_rcu_fn L) cbs s) = rcu_pending s
     \<and> filesystems (fold (run_rcu_fn L) cbs s) = filesystems s"
  using assms
proof (induction cbs arbitrary: s c)
  case Nil
  then show ?case by simp
next
  case (Cons cb cbs)
  let ?obj = "BABY_I L (container_of (fst cb) (off_i_rcu L))"
  let ?s = "run_rcu_fn L cb s"
  have step: "?s = s\<lparr>baby_inode_cachep := Some (c\<lparr>c_free := ?obj # c_free c\<rparr>),
       trace := trace s @ [Ev_kmem_cache_free ?obj]\<rparr>"
    using Cons.prems by (simp add: run_rcu_fn_eq kmem_cache_free_alive)
  have "baby_inode_cachep ?s = Some (c\<lparr>c_free := ?obj # c_free c\<rparr>)"
    and "c_alive (c\<lparr>c_free := ?obj # c_free c\<rparr>)"
    using Cons.prems by (simp_all add: step)
  from Cons.IH [OF this] show ?case
    by (simp add: step)
qed

lemma pending_frees_slots: "pending_frees L s = map Ev_kmem_cache_free (pending_slots L s)"
  by (simp add: pending_frees_def pending_slots_def)

lemma rcu_barrier_alive:
  assumes "baby_inode_cachep s = Some c" and "c_alive c"
  shows "trace (rcu_barrier L s) = trace s @ [Ev_rcu_barrier] @ pending_frees L s
     \<and> rcu_pending (rcu_barrier L s) = []
     \<and> filesystems (rcu_barrier L s) = filesystems s
     \<and> baby_inode_cachep (rcu_barrier L s)
         = Some (c\<lparr>c_free := rev (pending_slots L s) @ c_free c\<rparr>)"
proof -
  let ?s = "log_event Ev_rcu_barrier (s\<lparr>rcu_pending := []\<rparr>)"
  have "baby_inode_cachep ?s = Some c"
    using assms by (simp add: log_event_def)
  from run_callbacks [OF this assms(2), of L "rcu_pending s"] show ?thesis
    using assms
    by (simp add: rcu_barrier_def pending_frees_def pending_slots_def log_event_def)
qed

lemma destroy_inodecache_alive:
  assumes "baby_inode_cachep s = Some c" and "c_alive c"
  shows "trace (destroy_inodecache L s)
           = trace s @ [Ev_rcu_barrier] @ pending_frees L s @ [Ev_kmem_cache_destroy]
     \<and> rcu_pending (destroy_inodecache L s) = []
     \<and> filesystems (destroy_inodecache L s) = filesystems s
     \<and> baby_inode_cachep (destroy_inodecache L s)
         = Some (c\<lparr>c_free := rev (pending_slots L s) @ c_free c, c_alive := False\<rparr>)"
  using rcu_barrier_alive [OF assms, of L]
  by (simp add: destroy_inodecache_def kmem_cache_destroy_def log_event_def)

text \<open>The same three steps as whole states: nothing else of the state changes.\<close>

lemma run_callbacks_state:
  assumes "baby_inode_cachep s = Some c" and "c_alive c"
  shows "fold (run_rcu_fn L) cbs s =
     s\<lparr>baby_inode_cachep :=
         Some (c\<lparr>c_free := rev (map (\<lambda>cb. BABY_I L (container_of (fst cb) (off_i_rcu L))) cbs)
                           @ c_free c\<rparr>),
       trace := trace s
                  @ map (\<lambda>cb. Ev_kmem_cache_free (BABY_I L (container_of (fst cb) (off_i_rcu L)))) cbs\<rparr>"
  using assms
proof (induction cbs arbitrary: s c)
  case Nil
  then show ?case
    by (cases s) simp
next
  case (Cons cb cbs)
  let ?obj = "BABY_I L (container_of (fst cb) (off_i_rcu L))"
  let ?s = "run_rcu_fn L cb s"
  have step: "?s = s\<lparr>baby_inode_cachep := Some (c\<lparr>c_free := ?obj # c_free c\<rparr>),
       trace := trace s @ [Ev_kmem_cache_free ?obj]\<rparr>"
    using Cons.prems by (simp add: run_rcu_fn_eq kmem_cache_free_alive)
  have "baby_inode_cachep ?s = Some (c\<lparr>c_free := ?obj # c_free c\<rparr>)"
    and "c_alive (c\<lparr>c_free := ?obj # c_free c\<rparr>)"
    using Cons.prems by (simp_all add: step)
  from Cons.IH [OF this] show ?case
    by (simp add: step)
qed

lemma rcu_barrier_state:
  assumes "baby_inode_cachep s = Some c" and "c_alive c"
  shows "rcu_barrier L s =
     s\<lparr>baby_inode_cachep := Some (c\<lparr>c_free := rev (pending_slots L s) @ c_free c\<rparr>),
       rcu_pending := [],
       trace := trace s @ [Ev_rcu_barrier] @ pending_frees L s\<rparr>"
proof -
  let ?s = "log_event Ev_rcu_barrier (s\<lparr>rcu_pending := []\<rparr>)"
  have "baby_inode_cachep ?s = Some c"
    using assms by (simp add: log_event_def)
  from run_callbacks_state [OF this assms(2), of L "rcu_pending s"] show ?thesis
    by (simp add: rcu_barrier_def pending_frees_def pending_slots_def log_event_def)
qed

lemma destroy_inodecache_state:
  assumes "baby_inode_cachep s = Some c" and "c_alive c"
  shows "destroy_inodecache L s =
     s\<lparr>baby_inode_cachep :=
         Some (c\<lparr>c_free := rev (pending_slots L s) @ c_free c, c_alive := False\<rparr>),
       rcu_pending := [],
       trace := trace s @ [Ev_rcu_barrier] @ pending_frees L s @ [Ev_kmem_cache_destroy]\<rparr>"
  by (simp add: destroy_inodecache_def rcu_barrier_state [OF assms] kmem_cache_destroy_def
      log_event_def)

text \<open>
  C5.  With the pool alive and any number of reclamations queued, \<^verbatim>\<open>destroy_inodecache\<close>
  first runs every queued callback (one free per callback, oldest first) and only then
  destroys the cache: the frees all stand before the destroy in the log, nothing is
  queued at the moment \<^verbatim>\<open>kmem_cache_destroy\<close> is called (the state \<^verbatim>\<open>rcu_barrier\<close>
  returns), and nothing is queued afterwards.  When the barrier returns the pool is
  still the live cache \<open>c\<close>, with every queued slot back on its free list; when
  \<^verbatim>\<open>destroy_inodecache\<close> returns the pool is that cache, destroyed.  The last two
  conjuncts give both states whole: the pool, the queue and the log are all that
  changes.
\<close>

theorem destroy_inodecache_drains_first:
  assumes "baby_inode_cachep s = Some c" and "c_alive c"
  shows "trace (destroy_inodecache L s)
           = trace s @ [Ev_rcu_barrier] @ pending_frees L s @ [Ev_kmem_cache_destroy]
     \<and> length (pending_frees L s) = length (rcu_pending s)
     \<and> trace (rcu_barrier L s) = trace s @ [Ev_rcu_barrier] @ pending_frees L s
     \<and> rcu_pending (rcu_barrier L s) = []
     \<and> rcu_pending (destroy_inodecache L s) = []
     \<and> pending_frees L s = map Ev_kmem_cache_free (pending_slots L s)
     \<and> baby_inode_cachep (rcu_barrier L s)
         = Some (c\<lparr>c_free := rev (pending_slots L s) @ c_free c\<rparr>)
     \<and> c_alive (c\<lparr>c_free := rev (pending_slots L s) @ c_free c\<rparr>)
     \<and> baby_inode_cachep (destroy_inodecache L s)
         = Some (c\<lparr>c_free := rev (pending_slots L s) @ c_free c, c_alive := False\<rparr>)
     \<and> rcu_barrier L s =
         s\<lparr>baby_inode_cachep := Some (c\<lparr>c_free := rev (pending_slots L s) @ c_free c\<rparr>),
           rcu_pending := [],
           trace := trace s @ [Ev_rcu_barrier] @ pending_frees L s\<rparr>
     \<and> destroy_inodecache L s =
         s\<lparr>baby_inode_cachep :=
             Some (c\<lparr>c_free := rev (pending_slots L s) @ c_free c, c_alive := False\<rparr>),
           rcu_pending := [],
           trace := trace s @ [Ev_rcu_barrier] @ pending_frees L s @ [Ev_kmem_cache_destroy]\<rparr>"
proof -
  have "length (pending_frees L s) = length (rcu_pending s)"
    and "pending_frees L s = map Ev_kmem_cache_free (pending_slots L s)"
    and "c_alive (c\<lparr>c_free := rev (pending_slots L s) @ c_free c\<rparr>)"
    using assms(2) by (simp_all add: pending_frees_def pending_slots_def)
  moreover note destroy_inodecache_alive [OF assms, of L] rcu_barrier_alive [OF assms, of L]
    rcu_barrier_state [OF assms, of L] destroy_inodecache_state [OF assms, of L]
  ultimately show ?thesis
    by blast
qed

lemmas pool_defs =
  run_pool_def baby_alloc_inode_def kmem_cache_alloc_def kmem_cache_free_def
  baby_destroy_inode_def call_rcu_def rcu_grace_def baby_i_callback_def BABY_I_def
  container_of_def init_once_def inode_init_once_def log_event_def init_inodecache_def
  kmem_cache_create_usercopy_def Let_def

lemma pool_ready_eval:
  "pool_ready = boot\<lparr>baby_inode_cachep :=
                        Some \<lparr>c_ctor = Some Init_once, c_slots = [], c_free = [], c_alive = True\<rparr>,
                     trace := [Ev_kmem_cache_create]\<rparr>"
  by (simp add: pool_ready_def pool_defs boot_def)

lemma pool_two_pending_eval:
  "pool_two_pending =
     boot\<lparr>baby_inode_cachep :=
            Some \<lparr>c_ctor = Some Init_once, c_slots = [0x10000, 0x10400], c_free = [],
                  c_alive = True\<rparr>,
          rcu_pending := [(0x10140, Baby_i_callback), (0x10540, Baby_i_callback)],
          trace := [Ev_kmem_cache_create, Ev_inode_init_once 0x10040, Ev_inode_init_once 0x10440]\<rparr>"
  by (simp add: pool_two_pending_def pool_ready_eval pool_defs layout_ex_def boot_def)

theorem destroy_inodecache_drains_first_witness:
  "trace (destroy_inodecache layout_ex pool_two_pending) =
     [Ev_kmem_cache_create, Ev_inode_init_once 0x10040, Ev_inode_init_once 0x10440,
      Ev_rcu_barrier, Ev_kmem_cache_free 0x10000, Ev_kmem_cache_free 0x10400,
      Ev_kmem_cache_destroy]
   \<and> rcu_pending pool_two_pending = [(0x10140, Baby_i_callback), (0x10540, Baby_i_callback)]
   \<and> rcu_pending (destroy_inodecache layout_ex pool_two_pending) = []
   \<and> baby_inode_cachep (rcu_barrier layout_ex pool_two_pending)
       = Some \<lparr>c_ctor = Some Init_once, c_slots = [0x10000, 0x10400],
               c_free = [0x10400, 0x10000], c_alive = True\<rparr>
   \<and> baby_inode_cachep (destroy_inodecache layout_ex pool_two_pending)
       = Some \<lparr>c_ctor = Some Init_once, c_slots = [0x10000, 0x10400],
               c_free = [0x10400, 0x10000], c_alive = False\<rparr>
   \<and> rcu_pending pool_ready = []
   \<and> trace (destroy_inodecache layout_ex pool_ready)
       = [Ev_kmem_cache_create, Ev_rcu_barrier, Ev_kmem_cache_destroy]
   \<and> baby_inode_cachep (destroy_inodecache layout_ex pool_ready)
       = Some \<lparr>c_ctor = Some Init_once, c_slots = [], c_free = [], c_alive = False\<rparr>"
proof -
  have pre: "baby_inode_cachep pool_two_pending
      = Some \<lparr>c_ctor = Some Init_once, c_slots = [0x10000, 0x10400], c_free = [], c_alive = True\<rparr>"
    "c_alive \<lparr>c_ctor = Some Init_once, c_slots = [0x10000, 0x10400], c_free = [], c_alive = True\<rparr>"
    by (simp_all add: pool_two_pending_eval)
  have frees: "pending_frees layout_ex pool_two_pending
      = [Ev_kmem_cache_free 0x10000, Ev_kmem_cache_free 0x10400]"
    by (simp add: pending_frees_def pool_two_pending_eval BABY_I_def container_of_def
        layout_ex_def)
  have pre0: "baby_inode_cachep pool_ready
      = Some \<lparr>c_ctor = Some Init_once, c_slots = [], c_free = [], c_alive = True\<rparr>"
    "c_alive \<lparr>c_ctor = Some Init_once, c_slots = [], c_free = [], c_alive = True\<rparr>"
    by (simp_all add: pool_ready_eval)
  have frees0: "pending_frees layout_ex pool_ready = []"
    by (simp add: pending_frees_def pool_ready_eval boot_def)
  have slots: "pending_slots layout_ex pool_two_pending = [0x10000, 0x10400]"
    "pending_slots layout_ex pool_ready = []"
    by (simp_all add: pending_slots_def pool_two_pending_eval pool_ready_eval BABY_I_def
        container_of_def layout_ex_def boot_def)
  have before: "trace pool_two_pending
      = [Ev_kmem_cache_create, Ev_inode_init_once 0x10040, Ev_inode_init_once 0x10440]"
    "rcu_pending pool_two_pending = [(0x10140, Baby_i_callback), (0x10540, Baby_i_callback)]"
    "trace pool_ready = [Ev_kmem_cache_create]" "rcu_pending pool_ready = []"
    by (simp_all add: pool_two_pending_eval pool_ready_eval boot_def)
  note two = destroy_inodecache_drains_first [OF pre, of layout_ex, unfolded frees slots before]
  note none = destroy_inodecache_drains_first [OF pre0, of layout_ex, unfolded frees0 slots before]
  from two none before show ?thesis
    by simp
qed

lemma fold_call_ctor:
  "trace (fold (call_ctor L (Some Init_once)) slots s)
     = trace s @ map (\<lambda>slot. Ev_inode_init_once (slot + off_vfs_inode L)) slots"
  by (induction slots arbitrary: s)
    (simp_all add: init_once_def inode_init_once_def log_event_def)

lemma inits_kmem_cache_free: "inits (trace (kmem_cache_free obj s)) = inits (trace s)"
  by (simp add: kmem_cache_free_def log_event_def inits_append split: option.splits)

lemma cache_kmem_cache_free:
  assumes "baby_inode_cachep s = Some c"
  shows "\<exists>c'. baby_inode_cachep (kmem_cache_free obj s) = Some c'
            \<and> c_ctor c' = c_ctor c \<and> c_slots c' = c_slots c"
  using assms by (simp add: kmem_cache_free_def log_event_def)

text \<open>
  What a step of the pool keeps: the cache is there with \<^verbatim>\<open>init_once\<close> as its
  constructor, and the initializer runs logged since \<open>t0\<close> are the carved slots.
\<close>

lemma pool_step_inits:
  assumes "baby_inode_cachep s = Some c" and "c_ctor c = Some Init_once"
    and "inits (trace s) = t0 @ map (\<lambda>slot. slot + off_vfs_inode L) (c_slots c)"
  shows "\<exists>c'. baby_inode_cachep (pool_step L op s) = Some c' \<and> c_ctor c' = Some Init_once
            \<and> inits (trace (pool_step L op s))
                = t0 @ map (\<lambda>slot. slot + off_vfs_inode L) (c_slots c')"
proof (cases op)
  case (Op_alloc grow)
  show ?thesis
  proof (cases "c_alive c")
    case False
    then show ?thesis
      using assms Op_alloc
      by (simp add: baby_alloc_inode_def kmem_cache_alloc_def log_event_def inits_append)
  next
    case True
    show ?thesis
    proof (cases "c_free c")
      case (Cons obj rest)
      then show ?thesis
        using assms Op_alloc True
        by (simp add: baby_alloc_inode_def kmem_cache_alloc_def)
    next
      case Nil
      show ?thesis
      proof (cases grow)
        case Nil': Nil
        then show ?thesis
          using assms Op_alloc True Nil
          by (simp add: baby_alloc_inode_def kmem_cache_alloc_def)
      next
        case (Cons obj rest)
        have "inits (trace (fold (call_ctor L (Some Init_once)) grow s))
            = t0 @ map (\<lambda>slot. slot + off_vfs_inode L) (c_slots c @ grow)"
          using assms(3) by (simp add: fold_call_ctor inits_append inits_init_events)
        then show ?thesis
          using assms Op_alloc True Nil Cons
          by (simp add: baby_alloc_inode_def kmem_cache_alloc_def Let_def)
      qed
    qed
  qed
next
  case (Op_reclaim inode)
  then show ?thesis
    using assms by (simp add: baby_destroy_inode_def call_rcu_def)
next
  case Op_grace
  show ?thesis
  proof (cases "rcu_pending s")
    case Nil
    then show ?thesis
      using assms Op_grace by (simp add: rcu_grace_def)
  next
    case (Cons cb rest)
    let ?s = "s\<lparr>rcu_pending := rest\<rparr>"
    let ?obj = "BABY_I L (container_of (fst cb) (off_i_rcu L))"
    have step: "pool_step L op s = kmem_cache_free ?obj ?s"
      using Op_grace Cons by (simp add: rcu_grace_def run_rcu_fn_eq)
    have "baby_inode_cachep ?s = Some c"
      using assms(1) by simp
    from cache_kmem_cache_free [OF this, of ?obj] obtain c'
      where "baby_inode_cachep (kmem_cache_free ?obj ?s) = Some c'"
        and "c_ctor c' = c_ctor c" and "c_slots c' = c_slots c"
      by blast
    then show ?thesis
      using assms by (simp add: step inits_kmem_cache_free)
  qed
qed

lemma run_pool_inits:
  assumes "baby_inode_cachep s = Some c" and "c_ctor c = Some Init_once"
    and "inits (trace s) = t0 @ map (\<lambda>slot. slot + off_vfs_inode L) (c_slots c)"
  shows "\<exists>c'. baby_inode_cachep (run_pool L ops s) = Some c' \<and> c_ctor c' = Some Init_once
            \<and> inits (trace (run_pool L ops s))
                = t0 @ map (\<lambda>slot. slot + off_vfs_inode L) (c_slots c')"
  using assms
proof (induction ops arbitrary: s c)
  case Nil
  then show ?case by (simp add: run_pool_def)
next
  case (Cons op ops)
  from pool_step_inits [OF Cons.prems, of op] obtain c'
    where "baby_inode_cachep (pool_step L op s) = Some c'" and "c_ctor c' = Some Init_once"
      and "inits (trace (pool_step L op s))
             = t0 @ map (\<lambda>slot. slot + off_vfs_inode L) (c_slots c')"
    by blast
  from Cons.IH [OF this] show ?case
    by (simp add: run_pool_def)
qed

lemma count_list_distinct: "distinct xs \<Longrightarrow> x \<in> set xs \<Longrightarrow> count_list xs x = 1"
  by (induction xs) auto

lemma alloc_from_free_list:
  assumes "baby_inode_cachep s = Some c" and "c_alive c" and "c_free c = obj # rest"
  shows "baby_alloc_inode L grow s
           = (Some (obj + off_vfs_inode L), s\<lparr>baby_inode_cachep := Some (c\<lparr>c_free := rest\<rparr>)\<rparr>)"
  using assms by (simp add: baby_alloc_inode_def kmem_cache_alloc_def)

text \<open>
  C6.  Take any state, create the pool (\<^verbatim>\<open>init_inodecache\<close>), and let any sequence of
  allocations, reclamations and grace periods follow.  The initializer runs logged
  since then are exactly the slots carved, in the order they were carved, each on the
  inode of its slot: one run per carve, none for an allocation or a reclamation.  So
  when the slots are distinct (the host carves fresh storage) and the log had no run
  before, the initializer has run exactly once on every carved slot.  The last conjunct
  is the allocation itself: served from the free list, it adds nothing to the log.
\<close>

theorem init_once_once_per_slot:
  "(\<exists>c. baby_inode_cachep (run_pool L ops (snd (init_inodecache True s))) = Some c
       \<and> inits (trace (run_pool L ops (snd (init_inodecache True s))))
           = inits (trace s) @ map (\<lambda>slot. slot + off_vfs_inode L) (c_slots c)
       \<and> (inits (trace s) = [] \<and> distinct (c_slots c) \<longrightarrow>
            (\<forall>slot. slot \<in> set (c_slots c) \<longrightarrow>
               count_list (inits (trace (run_pool L ops (snd (init_inodecache True s)))))
                 (slot + off_vfs_inode L) = 1)))
   \<and> (\<forall>s' c' grow. baby_inode_cachep s' = Some c' \<and> c_alive c' \<and> c_free c' \<noteq> [] \<longrightarrow>
         trace (snd (baby_alloc_inode L grow s')) = trace s')"
proof (intro conjI allI impI)
  let ?s0 = "snd (init_inodecache True s)"
  let ?c0 = "\<lparr>c_ctor = Some Init_once, c_slots = [], c_free = [], c_alive = True\<rparr>"
  have "baby_inode_cachep ?s0 = Some ?c0" and "c_ctor ?c0 = Some Init_once"
    and "inits (trace ?s0) = inits (trace s) @ map (\<lambda>slot. slot + off_vfs_inode L) (c_slots ?c0)"
    by (simp_all add: init_inodecache_def kmem_cache_create_usercopy_def log_event_def
        inits_append)
  from run_pool_inits [OF this, of ops] obtain c
    where c: "baby_inode_cachep (run_pool L ops ?s0) = Some c"
      and eq: "inits (trace (run_pool L ops ?s0))
                 = inits (trace s) @ map (\<lambda>slot. slot + off_vfs_inode L) (c_slots c)"
    by blast
  have inj: "inj (\<lambda>slot. slot + off_vfs_inode L)"
    by (simp add: inj_def)
  have once: "count_list (inits (trace (run_pool L ops ?s0))) (slot + off_vfs_inode L) = 1"
    if "inits (trace s) = [] \<and> distinct (c_slots c)" and "slot \<in> set (c_slots c)" for slot
    using that by (simp add: eq count_list_map_conv [OF inj] count_list_distinct)
  show "\<exists>c. baby_inode_cachep (run_pool L ops ?s0) = Some c
       \<and> inits (trace (run_pool L ops ?s0))
           = inits (trace s) @ map (\<lambda>slot. slot + off_vfs_inode L) (c_slots c)
       \<and> (inits (trace s) = [] \<and> distinct (c_slots c) \<longrightarrow>
            (\<forall>slot. slot \<in> set (c_slots c) \<longrightarrow>
               count_list (inits (trace (run_pool L ops ?s0))) (slot + off_vfs_inode L) = 1))"
    using c eq once by blast
next
  fix s' :: kstate and c' :: kmem_cache and grow :: "addr list"
  assume a: "baby_inode_cachep s' = Some c' \<and> c_alive c' \<and> c_free c' \<noteq> []"
  then obtain obj rest where "c_free c' = obj # rest"
    by (cases "c_free c'") auto
  with a show "trace (snd (baby_alloc_inode L grow s')) = trace s'"
    by (simp add: alloc_from_free_list)
qed

lemma ops_ex_eval:
  "run_pool layout_ex ops_ex (snd (init_inodecache True boot)) =
     boot\<lparr>baby_inode_cachep :=
            Some \<lparr>c_ctor = Some Init_once, c_slots = [0x10000, 0x10400, 0x20000], c_free = [],
                  c_alive = True\<rparr>,
          trace := [Ev_kmem_cache_create, Ev_inode_init_once 0x10040, Ev_inode_init_once 0x10440,
                    Ev_kmem_cache_free 0x10000, Ev_inode_init_once 0x20040]\<rparr>"
  by (simp add: ops_ex_def pool_defs layout_ex_def boot_def)

lemma pool_one_free_eval:
  "pool_one_free =
     boot\<lparr>baby_inode_cachep :=
            Some \<lparr>c_ctor = Some Init_once, c_slots = [0x10000, 0x10400], c_free = [0x10400],
                  c_alive = True\<rparr>,
          trace := [Ev_kmem_cache_create, Ev_inode_init_once 0x10040, Ev_inode_init_once 0x10440]\<rparr>"
  by (simp add: pool_one_free_def pool_ready_eval pool_defs layout_ex_def boot_def)

theorem init_once_once_per_slot_witness:
  "inits (trace (run_pool layout_ex ops_ex (snd (init_inodecache True boot))))
     = [0x10040, 0x10440, 0x20040]
   \<and> count_list (inits (trace (run_pool layout_ex ops_ex (snd (init_inodecache True boot)))))
        (0x10000 + off_vfs_inode layout_ex) = 1
   \<and> count_list (inits (trace (run_pool layout_ex ops_ex (snd (init_inodecache True boot)))))
        (0x10400 + off_vfs_inode layout_ex) = 1
   \<and> count_list (inits (trace (run_pool layout_ex ops_ex (snd (init_inodecache True boot)))))
        (0x20000 + off_vfs_inode layout_ex) = 1
   \<and> fst (baby_alloc_inode layout_ex [0x20000] pool_one_free) = Some 0x10440
   \<and> trace (snd (baby_alloc_inode layout_ex [0x20000] pool_one_free)) = trace pool_one_free"
proof -
  let ?c = "\<lparr>c_ctor = Some Init_once, c_slots = [0x10000, 0x10400, 0x20000 :: addr], c_free = [],
             c_alive = True\<rparr>"
  let ?c1 = "\<lparr>c_ctor = Some Init_once, c_slots = [0x10000, 0x10400 :: addr],
              c_free = [0x10400], c_alive = True\<rparr>"
  have cache: "baby_inode_cachep (run_pool layout_ex ops_ex (snd (init_inodecache True boot)))
      = Some ?c"
    by (simp add: ops_ex_eval)
  have fresh: "inits (trace boot) = [] \<and> distinct (c_slots ?c)"
    by (simp add: boot_def)
  have free: "baby_inode_cachep pool_one_free = Some ?c1 \<and> c_alive ?c1 \<and> c_free ?c1 \<noteq> []"
    by (simp add: pool_one_free_eval)
  have handed: "fst (baby_alloc_inode layout_ex [0x20000] pool_one_free) = Some 0x10440"
    by (simp add: pool_one_free_eval baby_alloc_inode_def kmem_cache_alloc_def layout_ex_def)
  from init_once_once_per_slot [of layout_ex ops_ex boot] cache fresh free handed
  show ?thesis
    by (simp add: layout_ex_def)
qed

section \<open>Module load and unload\<close>

lemma init_inodecache_ok:
  "init_inodecache True s =
     (0, s\<lparr>baby_inode_cachep :=
              Some \<lparr>c_ctor = Some Init_once, c_slots = [], c_free = [], c_alive = True\<rparr>,
            trace := trace s @ [Ev_kmem_cache_create]\<rparr>)"
  by (simp add: init_inodecache_def kmem_cache_create_usercopy_def log_event_def)

lemma init_inodecache_nomem:
  "init_inodecache False s =
     (- ENOMEM, s\<lparr>baby_inode_cachep := None, trace := trace s @ [Ev_kmem_cache_create]\<rparr>)"
  by (simp add: init_inodecache_def kmem_cache_create_usercopy_def log_event_def)

text \<open>
  C8.  \<^verbatim>\<open>init_babyfs\<close>: when the pool cannot be created it returns \<open>- ENOMEM\<close> having
  called only \<^verbatim>\<open>kmem_cache_create_usercopy\<close>, with no pool (\<open>baby_inode_cachep\<close> is
  NULL) and no filesystem registered; when registration fails with \<open>r\<close> it returns
  \<open>r\<close> after create, register, barrier, the queued frees and destroy, in this order,
  and the pool it created is destroyed, nothing queued, nothing registered; when both
  succeed it returns 0 after create then register, the pool is the new, live, empty
  cache with \<^verbatim>\<open>init_once\<close> as its constructor, and babyfs is registered.
  \<^verbatim>\<open>exit_babyfs\<close> on a live pool: unregister first, then the barrier, the queued frees
  and the destroy; babyfs is no longer registered, nothing is queued and the pool is
  destroyed.  Conjuncts 1, 2, 3 and 4 from the end give the four resulting states
  whole.
\<close>

theorem init_exit_order:
  "fst (init_babyfs L False r s) = - ENOMEM
   \<and> trace (snd (init_babyfs L False r s)) = trace s @ [Ev_kmem_cache_create]
   \<and> filesystems (snd (init_babyfs L False r s)) = filesystems s
   \<and> (r \<noteq> 0 \<longrightarrow>
        fst (init_babyfs L True r s) = r
        \<and> trace (snd (init_babyfs L True r s))
            = trace s @ [Ev_kmem_cache_create, Ev_register_filesystem, Ev_rcu_barrier]
                @ pending_frees L s @ [Ev_kmem_cache_destroy]
        \<and> filesystems (snd (init_babyfs L True r s)) = filesystems s)
   \<and> fst (init_babyfs L True 0 s) = 0
   \<and> trace (snd (init_babyfs L True 0 s))
       = trace s @ [Ev_kmem_cache_create, Ev_register_filesystem]
   \<and> filesystems (snd (init_babyfs L True 0 s)) = ''babyfs'' # filesystems s
   \<and> (baby_inode_cachep s = Some c \<and> c_alive c \<longrightarrow>
        trace (exit_babyfs L s)
          = trace s @ [Ev_unregister_filesystem, Ev_rcu_barrier] @ pending_frees L s
              @ [Ev_kmem_cache_destroy]
        \<and> filesystems (exit_babyfs L s) = remove1 ''babyfs'' (filesystems s))
   \<and> baby_inode_cachep (snd (init_babyfs L False r s)) = None
   \<and> (r \<noteq> 0 \<longrightarrow>
        baby_inode_cachep (snd (init_babyfs L True r s))
          = Some \<lparr>c_ctor = Some Init_once, c_slots = [], c_free = rev (pending_slots L s),
                  c_alive = False\<rparr>
        \<and> rcu_pending (snd (init_babyfs L True r s)) = [])
   \<and> baby_inode_cachep (snd (init_babyfs L True 0 s))
       = Some \<lparr>c_ctor = Some Init_once, c_slots = [], c_free = [], c_alive = True\<rparr>
   \<and> rcu_pending (snd (init_babyfs L True 0 s)) = rcu_pending s
   \<and> (baby_inode_cachep s = Some c \<and> c_alive c \<longrightarrow>
        baby_inode_cachep (exit_babyfs L s)
          = Some (c\<lparr>c_free := rev (pending_slots L s) @ c_free c, c_alive := False\<rparr>)
        \<and> rcu_pending (exit_babyfs L s) = [])
   \<and> init_babyfs L False r s
       = (- ENOMEM, s\<lparr>baby_inode_cachep := None, trace := trace s @ [Ev_kmem_cache_create]\<rparr>)
   \<and> (r \<noteq> 0 \<longrightarrow>
        init_babyfs L True r s
          = (r, s\<lparr>baby_inode_cachep :=
                    Some \<lparr>c_ctor = Some Init_once, c_slots = [],
                          c_free = rev (pending_slots L s), c_alive = False\<rparr>,
                  rcu_pending := [],
                  trace := trace s @ [Ev_kmem_cache_create, Ev_register_filesystem,
                                      Ev_rcu_barrier]
                             @ pending_frees L s @ [Ev_kmem_cache_destroy]\<rparr>))
   \<and> init_babyfs L True 0 s
       = (0, s\<lparr>baby_inode_cachep :=
                 Some \<lparr>c_ctor = Some Init_once, c_slots = [], c_free = [], c_alive = True\<rparr>,
               filesystems := ''babyfs'' # filesystems s,
               trace := trace s @ [Ev_kmem_cache_create, Ev_register_filesystem]\<rparr>)
   \<and> (baby_inode_cachep s = Some c \<and> c_alive c \<longrightarrow>
        exit_babyfs L s
          = s\<lparr>baby_inode_cachep :=
                Some (c\<lparr>c_free := rev (pending_slots L s) @ c_free c, c_alive := False\<rparr>),
              rcu_pending := [],
              filesystems := remove1 ''babyfs'' (filesystems s),
              trace := trace s @ [Ev_unregister_filesystem, Ev_rcu_barrier]
                         @ pending_frees L s @ [Ev_kmem_cache_destroy]\<rparr>)"
proof -
  have nomem: "init_babyfs L False r s
       = (- ENOMEM, s\<lparr>baby_inode_cachep := None, trace := trace s @ [Ev_kmem_cache_create]\<rparr>)"
    by (simp add: init_babyfs_def init_inodecache_nomem ENOMEM_def)
  have ok: "init_babyfs L True 0 s
       = (0, s\<lparr>baby_inode_cachep :=
                 Some \<lparr>c_ctor = Some Init_once, c_slots = [], c_free = [], c_alive = True\<rparr>,
               filesystems := ''babyfs'' # filesystems s,
               trace := trace s @ [Ev_kmem_cache_create, Ev_register_filesystem]\<rparr>)"
    by (simp add: init_babyfs_def init_inodecache_ok register_filesystem_def log_event_def)
  have refused: "init_babyfs L True r s
          = (r, s\<lparr>baby_inode_cachep :=
                    Some \<lparr>c_ctor = Some Init_once, c_slots = [],
                          c_free = rev (pending_slots L s), c_alive = False\<rparr>,
                  rcu_pending := [],
                  trace := trace s @ [Ev_kmem_cache_create, Ev_register_filesystem,
                                      Ev_rcu_barrier]
                             @ pending_frees L s @ [Ev_kmem_cache_destroy]\<rparr>)"
    if r: "r \<noteq> 0"
  proof -
    let ?c = "\<lparr>c_ctor = Some Init_once, c_slots = [], c_free = [], c_alive = True\<rparr>"
    let ?s2 = "s\<lparr>baby_inode_cachep := Some ?c,
                 trace := trace s @ [Ev_kmem_cache_create, Ev_register_filesystem]\<rparr>"
    have run: "init_babyfs L True r s = (r, destroy_inodecache L ?s2)"
      using r by (simp add: init_babyfs_def init_inodecache_ok register_filesystem_def
          log_event_def)
    have "baby_inode_cachep ?s2 = Some ?c" and "c_alive ?c"
      by simp_all
    from destroy_inodecache_state [OF this, of L] show ?thesis
      by (simp add: run pending_frees_def pending_slots_def)
  qed
  have left: "exit_babyfs L s
          = s\<lparr>baby_inode_cachep :=
                Some (c\<lparr>c_free := rev (pending_slots L s) @ c_free c, c_alive := False\<rparr>),
              rcu_pending := [],
              filesystems := remove1 ''babyfs'' (filesystems s),
              trace := trace s @ [Ev_unregister_filesystem, Ev_rcu_barrier]
                         @ pending_frees L s @ [Ev_kmem_cache_destroy]\<rparr>"
    if a: "baby_inode_cachep s = Some c \<and> c_alive c"
  proof -
    let ?s1 = "unregister_filesystem s"
    have "baby_inode_cachep ?s1 = Some c" and "c_alive c"
      using a by (simp_all add: unregister_filesystem_def log_event_def)
    from destroy_inodecache_state [OF this, of L] show ?thesis
      by (simp add: exit_babyfs_def unregister_filesystem_def log_event_def pending_frees_def
          pending_slots_def)
  qed
  show ?thesis
    by (intro conjI impI) (simp_all add: nomem ok refused left)
qed

theorem init_exit_order_witness:
  "init_babyfs layout_ex False (- 16) boot
     = (- 12, boot\<lparr>trace := [Ev_kmem_cache_create]\<rparr>)
   \<and> fst (init_babyfs layout_ex True (- 16) boot) = - 16
   \<and> trace (snd (init_babyfs layout_ex True (- 16) boot))
       = [Ev_kmem_cache_create, Ev_register_filesystem, Ev_rcu_barrier, Ev_kmem_cache_destroy]
   \<and> filesystems (snd (init_babyfs layout_ex True (- 16) boot)) = []
   \<and> trace (exit_babyfs layout_ex pool_two_pending)
       = [Ev_kmem_cache_create, Ev_inode_init_once 0x10040, Ev_inode_init_once 0x10440,
          Ev_unregister_filesystem, Ev_rcu_barrier, Ev_kmem_cache_free 0x10000,
          Ev_kmem_cache_free 0x10400, Ev_kmem_cache_destroy]
   \<and> baby_inode_cachep (snd (init_babyfs layout_ex False (- 16) boot)) = None
   \<and> baby_inode_cachep (snd (init_babyfs layout_ex True (- 16) boot))
       = Some \<lparr>c_ctor = Some Init_once, c_slots = [], c_free = [], c_alive = False\<rparr>
   \<and> baby_inode_cachep (snd (init_babyfs layout_ex True 0 boot))
       = Some \<lparr>c_ctor = Some Init_once, c_slots = [], c_free = [], c_alive = True\<rparr>
   \<and> filesystems (snd (init_babyfs layout_ex True 0 boot)) = [''babyfs'']
   \<and> trace (snd (init_babyfs layout_ex True 0 boot))
       = [Ev_kmem_cache_create, Ev_register_filesystem]
   \<and> baby_inode_cachep (exit_babyfs layout_ex pool_two_pending)
       = Some \<lparr>c_ctor = Some Init_once, c_slots = [0x10000, 0x10400],
               c_free = [0x10400, 0x10000], c_alive = False\<rparr>
   \<and> rcu_pending (exit_babyfs layout_ex pool_two_pending) = []"
proof -
  let ?c = "\<lparr>c_ctor = Some Init_once, c_slots = [0x10000, 0x10400 :: addr], c_free = [],
             c_alive = True\<rparr>"
  have r: "(- 16 :: int) \<noteq> 0"
    by simp
  have alive: "baby_inode_cachep pool_two_pending = Some ?c \<and> c_alive ?c"
    by (simp add: pool_two_pending_eval)
  have frees: "pending_frees layout_ex pool_two_pending
      = [Ev_kmem_cache_free 0x10000, Ev_kmem_cache_free 0x10400]"
    "pending_frees layout_ex boot = []"
    by (simp_all add: pending_frees_def pool_two_pending_eval BABY_I_def container_of_def
        layout_ex_def boot_def)
  have slots: "pending_slots layout_ex pool_two_pending = [0x10000, 0x10400]"
    "pending_slots layout_ex boot = []"
    by (simp_all add: pending_slots_def pool_two_pending_eval BABY_I_def container_of_def
        layout_ex_def boot_def)
  have before: "trace pool_two_pending
      = [Ev_kmem_cache_create, Ev_inode_init_once 0x10040, Ev_inode_init_once 0x10440]"
    "trace boot = []" "filesystems boot = []" "baby_inode_cachep boot = None"
    by (simp_all add: pool_two_pending_eval boot_def)
  note load = init_exit_order [of layout_ex "- 16" boot, unfolded frees slots before]
  note unload = init_exit_order [of layout_ex 0 pool_two_pending ?c, unfolded frees slots before]
  have nomem: "init_babyfs layout_ex False (- 16) boot
     = (- 12, boot\<lparr>trace := [Ev_kmem_cache_create]\<rparr>)"
    using load by (simp add: ENOMEM_def) (simp add: boot_def)
  have loaded: "init_babyfs layout_ex True 0 boot
     = (0, boot\<lparr>baby_inode_cachep :=
                    Some \<lparr>c_ctor = Some Init_once, c_slots = [], c_free = [], c_alive = True\<rparr>,
                  filesystems := [''babyfs''],
                  trace := [Ev_kmem_cache_create, Ev_register_filesystem]\<rparr>)"
    using init_exit_order [of layout_ex 0 boot, unfolded before] by simp
  from load unload r alive show ?thesis
    by (simp add: nomem loaded)
qed

section \<open>Allocation and reclamation of one inode\<close>

text \<open>
  C10.  Whenever \<^verbatim>\<open>baby_alloc_inode\<close> returns an inode, the slab handed out a slot
  \<open>bbi\<close> and the inode is \<^verbatim>\<open>&bbi->vfs_inode\<close>; \<^verbatim>\<open>BABY_I\<close> of the inode is that slot;
  \<^verbatim>\<open>baby_destroy_inode\<close> queues \<^verbatim>\<open>baby_i_callback\<close> on the inode's \<^verbatim>\<open>i_rcu\<close>; and the
  queued callback, in whatever state it runs, is \<^verbatim>\<open>kmem_cache_free\<close> of that same slot.
\<close>

theorem alloc_reclaim_same_slot:
  assumes "baby_alloc_inode L grow s = (Some inode, s1)"
  shows "\<exists>bbi. kmem_cache_alloc L grow s = (Some bbi, s1)
           \<and> inode = bbi + off_vfs_inode L
           \<and> BABY_I L inode = bbi
           \<and> rcu_pending (baby_destroy_inode L inode s1)
               = rcu_pending s1 @ [(inode + off_i_rcu L, Baby_i_callback)]
           \<and> (\<forall>s2. run_rcu_fn L (inode + off_i_rcu L, Baby_i_callback) s2
                      = kmem_cache_free bbi s2)"
proof (cases "kmem_cache_alloc L grow s")
  case (Pair r s')
  show ?thesis
  proof (cases r)
    case None
    with Pair assms show ?thesis
      by (simp add: baby_alloc_inode_def)
  next
    case (Some bbi)
    with Pair assms have "s' = s1" and "inode = bbi + off_vfs_inode L"
      by (auto simp add: baby_alloc_inode_def)
    with Pair Some show ?thesis
      by (simp add: BABY_I_def container_of_def baby_destroy_inode_def call_rcu_def
          baby_i_callback_def)
  qed
qed

theorem alloc_reclaim_same_slot_witness:
  "fst (baby_alloc_inode layout_ex [0x10000, 0x10400] pool_ready) = Some 0x10040
   \<and> fst (kmem_cache_alloc layout_ex [0x10000, 0x10400] pool_ready) = Some 0x10000
   \<and> BABY_I layout_ex 0x10040 = 0x10000
   \<and> rcu_pending (baby_destroy_inode layout_ex 0x10040
                     (snd (baby_alloc_inode layout_ex [0x10000, 0x10400] pool_ready)))
       = [(0x10140, Baby_i_callback)]
   \<and> run_rcu_fn layout_ex (0x10140, Baby_i_callback) pool_one_free
       = kmem_cache_free 0x10000 pool_one_free"
proof -
  have a: "baby_alloc_inode layout_ex [0x10000, 0x10400] pool_ready
      = (Some 0x10040, snd (baby_alloc_inode layout_ex [0x10000, 0x10400] pool_ready))"
    by (simp add: pool_ready_eval baby_alloc_inode_def kmem_cache_alloc_def layout_ex_def)
  have a': "fst (baby_alloc_inode layout_ex [0x10000, 0x10400] pool_ready) = Some 0x10040"
    by (simp add: pool_ready_eval baby_alloc_inode_def kmem_cache_alloc_def layout_ex_def)
  have b: "fst (kmem_cache_alloc layout_ex [0x10000, 0x10400] pool_ready) = Some 0x10000"
    by (simp add: pool_ready_eval kmem_cache_alloc_def)
  have c: "rcu_pending (snd (baby_alloc_inode layout_ex [0x10000, 0x10400] pool_ready)) = []"
    by (simp add: pool_ready_eval pool_defs boot_def)
  have d: "(0x10040 :: addr) + off_i_rcu layout_ex = 0x10140"
    by (simp add: layout_ex_def)
  from alloc_reclaim_same_slot [OF a] obtain bbi
    where "kmem_cache_alloc layout_ex [0x10000, 0x10400] pool_ready
             = (Some bbi, snd (baby_alloc_inode layout_ex [0x10000, 0x10400] pool_ready))"
      and "BABY_I layout_ex 0x10040 = bbi"
      and "rcu_pending (baby_destroy_inode layout_ex 0x10040
                     (snd (baby_alloc_inode layout_ex [0x10000, 0x10400] pool_ready)))
             = rcu_pending (snd (baby_alloc_inode layout_ex [0x10000, 0x10400] pool_ready))
                 @ [(0x10040 + off_i_rcu layout_ex, Baby_i_callback)]"
      and "\<forall>s2. run_rcu_fn layout_ex (0x10040 + off_i_rcu layout_ex, Baby_i_callback) s2
                      = kmem_cache_free bbi s2"
    by blast
  with a' b c d show ?thesis
    by simp
qed

end
